theory Spec2Isabelle
  imports Complex_Main "HOL-Library.Log_Nat"
begin

section \<open>Floating-point numbers\<close>

text \<open>
  A Python \<open>float\<close> is an IEEE 754 double: a finite value, one of the two infinities, or
  NaN. A finite double is held as the rational number it denotes, with \<open>Finite 0\<close> for
  \<open>0.0\<close> and \<open>NZero\<close> for \<open>-0.0\<close>. The results of arithmetic are rounded to the
  nearest double, ties to the even significand, with 53 bits of significand, exponents
  from \<open>-1022\<close> (below which the spacing stays \<open>2^-1074\<close>) and overflow to infinity
  from \<open>2^1024\<close> on. A float decoded from JSON is a double; the operations below
  return doubles whatever finite values they are given.
\<close>

datatype double = Finite rat | NZero | PInf | NInf | NaN

definition pow2 :: "int \<Rightarrow> rat" where
  "pow2 e = (if 0 \<le> e then 2 ^ nat e else 1 / 2 ^ nat (- e))"

text \<open>For \<open>a > 0\<close>, the exponent \<open>e\<close> with \<open>2^e \<le> a < 2^(e+1)\<close>.\<close>

definition ilog2 :: "rat \<Rightarrow> int" where
  "ilog2 a =
     (case quotient_of a of (p, q) \<Rightarrow>
        (let d = bitlen p - bitlen q in if pow2 d \<le> a then d else d - 1))"

definition round_half_even :: "rat \<Rightarrow> int" where
  "round_half_even x =
     (let f = \<lfloor>x\<rfloor>; d = x - of_int f
      in if d < 1 / 2 then f else if 1 / 2 < d then f + 1 else if even f then f else f + 1)"

text \<open>
  The double nearest to a rational: an exact zero is \<open>0.0\<close>, and a result that rounds
  to zero keeps the sign of the number rounded.
\<close>

definition round_double :: "rat \<Rightarrow> double" where
  "round_double r =
     (if r = 0 then Finite 0
      else
        (let a = \<bar>r\<bar>;
             q = pow2 (max (ilog2 a) (- 1022) - 52);
             v = of_int (round_half_even (a / q)) * q
         in if pow2 1024 \<le> v then (if 0 < r then PInf else NInf)
            else if v = 0 then (if 0 < r then Finite 0 else NZero)
            else Finite (if 0 < r then v else - v)))"

text \<open>\<open>x + y\<close> and \<open>x * y\<close> on floats; neither raises.\<close>

fun fadd :: "double \<Rightarrow> double \<Rightarrow> double" where
  "fadd (Finite a) (Finite b) = round_double (a + b)"
| "fadd NaN y = NaN"
| "fadd x NaN = NaN"
| "fadd NZero y = y"
| "fadd x NZero = x"
| "fadd PInf NInf = NaN"
| "fadd NInf PInf = NaN"
| "fadd PInf y = PInf"
| "fadd x PInf = PInf"
| "fadd NInf y = NInf"
| "fadd x NInf = NInf"

text \<open>Whether the sign bit is set, and the value of a finite float.\<close>

fun negative :: "double \<Rightarrow> bool" where
  "negative (Finite a) = (a < 0)"
| "negative NZero = True"
| "negative NInf = True"
| "negative _ = False"

fun finite_value :: "double \<Rightarrow> rat option" where
  "finite_value (Finite a) = Some a"
| "finite_value NZero = Some 0"
| "finite_value _ = None"

definition fmul :: "double \<Rightarrow> double \<Rightarrow> double" where
  "fmul x y =
     (if x = NaN \<or> y = NaN then NaN
      else
        (case (finite_value x, finite_value y) of
           (Some a, Some b) \<Rightarrow>
             if a * b = 0 then (if negative x = negative y then Finite 0 else NZero)
             else round_double (a * b)
         | (Some a, None) \<Rightarrow>
             if a = 0 then NaN else if negative x = negative y then PInf else NInf
         | (None, Some b) \<Rightarrow>
             if b = 0 then NaN else if negative x = negative y then PInf else NInf
         | (None, None) \<Rightarrow> if negative x = negative y then PInf else NInf))"

text \<open>\<open>x < b\<close> and \<open>x >= b\<close> for a float and an exact bound; both are false of NaN.\<close>

fun float_lt :: "double \<Rightarrow> rat \<Rightarrow> bool" where
  "float_lt (Finite r) b = (r < b)"
| "float_lt NZero b = (0 < b)"
| "float_lt NInf b = True"
| "float_lt PInf b = False"
| "float_lt NaN b = False"

fun float_ge :: "double \<Rightarrow> rat \<Rightarrow> bool" where
  "float_ge (Finite r) b = (b \<le> r)"
| "float_ge NZero b = (b \<le> 0)"
| "float_ge PInf b = True"
| "float_ge NInf b = False"
| "float_ge NaN b = False"

section \<open>Values, errors and the primitives of the runtime\<close>

text \<open>
  A request body, a stored document and a raw order item are JSON values as Python sees
  them after decoding: \<open>None\<close>, \<open>bool\<close>, \<open>int\<close> (unbounded), \<open>float\<close>,
  \<open>str\<close>, \<open>list\<close> and \<open>dict\<close>. A \<open>dict\<close> is the list of its entries, read with
  \<open>map_of\<close> (the first binding of a key is the one the dict holds).
\<close>

datatype json =
    JNull
  | JBool bool
  | JInt int
  | JFloat double
  | JStr string
  | JArr "json list"
  | JObj "(string \<times> json) list"

type_synonym dict = "(string \<times> json) list"

text \<open>
  What a handler can end with instead of a result. \<open>ValidationFailure\<close> and
  \<open>MissingRequiredParameter\<close> are the client errors the framework raises before the
  handler body runs (a body that does not fit the declared model, a required query
  parameter that is absent). \<open>ValidationError\<close> is the exception of a model constructor
  called inside a handler; \<open>ValueError\<close>, \<open>TypeError\<close> and \<open>OverflowError\<close> are those
  of the builtins \<open>float\<close> and \<open>int\<close> and of arithmetic. \<open>StorageUnavailable\<close> is the
  store's failure.
\<close>

datatype error =
    ValidationFailure
  | MissingRequiredParameter
  | ValidationError
  | ValueError
  | TypeError
  | OverflowError
  | StorageUnavailable

text \<open>
  The parsing of numbers, URLs and timestamps out of strings belongs to the language
  runtime and to the validation library, not to this repository: these functions are
  parameters of the model, and every theorem holds for all of them.
\<close>

record prims =
  float_of_str :: "string \<Rightarrow> double option"  \<comment> \<open>the builtin \<open>float\<close> on a \<open>str\<close>\<close>
  int_of_str :: "string \<Rightarrow> int option"  \<comment> \<open>the builtin \<open>int\<close> on a \<open>str\<close>\<close>
  lax_float :: "string \<Rightarrow> double option"  \<comment> \<open>a \<open>float\<close> field given a \<open>str\<close>\<close>
  lax_int :: "string \<Rightarrow> int option"  \<comment> \<open>an \<open>int\<close> field given a \<open>str\<close>\<close>
  http_url :: "string \<Rightarrow> bool"  \<comment> \<open>well-formedness of an \<open>HttpUrl\<close>\<close>
  datetime :: "json \<Rightarrow> bool"  \<comment> \<open>the inputs a \<open>datetime\<close> field accepts\<close>

text \<open>\<open>d.get(k, default)\<close> on a dict.\<close>

definition dict_get :: "dict \<Rightarrow> string \<Rightarrow> json \<Rightarrow> json" where
  "dict_get d k dflt = (case map_of d k of None \<Rightarrow> dflt | Some v \<Rightarrow> v)"

text \<open>
  The conversion of an \<open>int\<close> to a \<open>float\<close>, as \<open>float(n)\<close> and as the \<open>int\<close> operand
  of a float operation do it: the nearest double, or \<open>OverflowError\<close> when that is out
  of range.
\<close>

definition float_of_int :: "int \<Rightarrow> error + double" where
  "float_of_int n =
     (case round_double (of_int n) of Finite v \<Rightarrow> Inr (Finite v) | _ \<Rightarrow> Inl OverflowError)"

text \<open>
  The builtin \<open>float(x)\<close>: numbers and booleans convert, a string is parsed or raises
  \<open>ValueError\<close>, anything else raises \<open>TypeError\<close>.
\<close>

fun py_float :: "prims \<Rightarrow> json \<Rightarrow> error + double" where
  "py_float P (JInt n) = float_of_int n"
| "py_float P (JFloat x) = Inr x"
| "py_float P (JBool b) = Inr (Finite (if b then 1 else 0))"
| "py_float P (JStr s) = (case float_of_str P s of None \<Rightarrow> Inl ValueError | Some x \<Rightarrow> Inr x)"
| "py_float P JNull = Inl TypeError"
| "py_float P (JArr xs) = Inl TypeError"
| "py_float P (JObj d) = Inl TypeError"

text \<open>
  The builtin \<open>int(x)\<close>; a finite float is truncated towards zero, an infinity raises
  \<open>OverflowError\<close> and NaN raises \<open>ValueError\<close>.
\<close>

definition trunc :: "rat \<Rightarrow> int" where
  "trunc r = (if 0 \<le> r then \<lfloor>r\<rfloor> else \<lceil>r\<rceil>)"

fun int_of_float :: "double \<Rightarrow> error + int" where
  "int_of_float (Finite r) = Inr (trunc r)"
| "int_of_float NZero = Inr 0"
| "int_of_float PInf = Inl OverflowError"
| "int_of_float NInf = Inl OverflowError"
| "int_of_float NaN = Inl ValueError"

fun py_int :: "prims \<Rightarrow> json \<Rightarrow> error + int" where
  "py_int P (JInt n) = Inr n"
| "py_int P (JFloat x) = int_of_float x"
| "py_int P (JBool b) = Inr (if b then 1 else 0)"
| "py_int P (JStr s) = (case int_of_str P s of None \<Rightarrow> Inl ValueError | Some n \<Rightarrow> Inr n)"
| "py_int P JNull = Inl TypeError"
| "py_int P (JArr xs) = Inl TypeError"
| "py_int P (JObj d) = Inl TypeError"

section \<open>Order total computation (main.py, \<open>create_order\<close>, the loop)\<close>

text \<open>
  \<^verbatim>\<open>
  total = 0.0
  for item in order.items:
      price = float(item.get("price", 0))
      qty = int(item.get("quantity", 1))
      total += price * qty
  \<close>
  The loop with its accumulator \<open>tot\<close> (the source's \<open>total\<close>). An exception of
  \<open>float\<close> or \<open>int\<close> ends it, and so does the \<open>OverflowError\<close> of \<open>price * qty\<close>
  when \<open>qty\<close> is too large an \<open>int\<close> to become a float; the product and the sum are
  float operations.
\<close>

fun compute_total :: "prims \<Rightarrow> double \<Rightarrow> dict list \<Rightarrow> error + double" where
  "compute_total P tot [] = Inr tot"
| "compute_total P tot (item # items) =
     (case py_float P (dict_get item ''price'' (JInt 0)) of
        Inl e \<Rightarrow> Inl e
      | Inr price \<Rightarrow>
          (case py_int P (dict_get item ''quantity'' (JInt 1)) of
             Inl e \<Rightarrow> Inl e
           | Inr qty \<Rightarrow>
               (case float_of_int qty of
                  Inl e \<Rightarrow> Inl e
                | Inr q \<Rightarrow> compute_total P (fadd tot (fmul price q)) items)))"

section \<open>Validation of the declared models (schemas.py)\<close>

text \<open>
  A field type is the function that checks and converts one input value: \<open>None\<close> is a
  validation error, \<open>Some v\<close> the value the model holds. The conversions are those of
  the validation library on decoded JSON: a \<open>str\<close> field takes a string only; an
  \<open>int\<close> field takes an int, a bool, a finite float without fractional part that lies
  strictly between \<open>-2^63\<close> and \<open>2^63\<close>, or a string that parses; a \<open>float\<close> field
  takes a float (infinities and NaN too), a bool, an int that converts to a float
  without overflow, or a string that parses.
\<close>

fun v_str :: "json \<Rightarrow> json option" where
  "v_str (JStr s) = Some (JStr s)"
| "v_str _ = None"

fun int_from_float :: "double \<Rightarrow> int option" where
  "int_from_float (Finite r) =
     (if of_int \<lfloor>r\<rfloor> = r \<and> - (2 ^ 63) < r \<and> r < 2 ^ 63 then Some \<lfloor>r\<rfloor> else None)"
| "int_from_float NZero = Some 0"
| "int_from_float _ = None"

fun v_int :: "prims \<Rightarrow> json \<Rightarrow> json option" where
  "v_int P (JInt n) = Some (JInt n)"
| "v_int P (JBool b) = Some (JInt (if b then 1 else 0))"
| "v_int P (JFloat x) = map_option JInt (int_from_float x)"
| "v_int P (JStr s) = map_option JInt (lax_int P s)"
| "v_int P _ = None"

fun v_float :: "prims \<Rightarrow> json \<Rightarrow> json option" where
  "v_float P (JFloat x) = Some (JFloat x)"
| "v_float P (JInt n) = (case float_of_int n of Inl e \<Rightarrow> None | Inr x \<Rightarrow> Some (JFloat x))"
| "v_float P (JBool b) = Some (JFloat (Finite (if b then 1 else 0)))"
| "v_float P (JStr s) = map_option JFloat (lax_float P s)"
| "v_float P _ = None"

text \<open>
  \<open>Field(..., ge=b)\<close>: the converted number is refused when it is less than \<open>b\<close>; for
  a float that is the float comparison, which NaN passes.
\<close>

fun ge_json :: "json \<Rightarrow> rat \<Rightarrow> bool" where
  "ge_json (JInt n) b = (b \<le> of_int n)"
| "ge_json (JFloat x) b = (\<not> float_lt x b)"
| "ge_json _ b = False"

definition v_ge :: "rat \<Rightarrow> (json \<Rightarrow> json option) \<Rightarrow> json \<Rightarrow> json option" where
  "v_ge b v j = (case v j of None \<Rightarrow> None | Some y \<Rightarrow> if ge_json y b then Some y else None)"

text \<open>\<open>Optional[T]\<close>, \<open>List[T]\<close>, \<open>Literal[...]\<close>, \<open>HttpUrl\<close>, \<open>datetime\<close>, \<open>dict\<close>.\<close>

fun v_optional :: "(json \<Rightarrow> json option) \<Rightarrow> json \<Rightarrow> json option" where
  "v_optional v JNull = Some JNull"
| "v_optional v j = v j"

fun v_list :: "(json \<Rightarrow> json option) \<Rightarrow> json \<Rightarrow> json option" where
  "v_list v (JArr xs) = map_option JArr (those (map v xs))"
| "v_list v _ = None"

fun v_literal :: "string list \<Rightarrow> json \<Rightarrow> json option" where
  "v_literal ss (JStr s) = (if s \<in> set ss then Some (JStr s) else None)"
| "v_literal ss _ = None"

fun v_url :: "prims \<Rightarrow> json \<Rightarrow> json option" where
  "v_url P (JStr s) = (if http_url P s then Some (JStr s) else None)"
| "v_url P _ = None"

definition v_datetime :: "prims \<Rightarrow> json \<Rightarrow> json option" where
  "v_datetime P j = (if datetime P j then Some j else None)"

fun v_dict :: "json \<Rightarrow> json option" where
  "v_dict (JObj d) = Some (JObj d)"
| "v_dict _ = None"

text \<open>
  A model is the list of its declared fields: name, type, and either \<open>Required\<close>
  (\<open>Field(...)\<close> or no default) or the default value. Validation walks the declared
  fields in order: an absent field takes its default (which is not validated) or fails
  when required, a present one goes through its type. Input fields that are not
  declared are dropped.
\<close>

datatype default = Required | Default json

type_synonym field = "string \<times> (json \<Rightarrow> json option) \<times> default"

fun validate_field :: "field \<Rightarrow> dict \<Rightarrow> json option" where
  "validate_field (name, v, dflt) d =
     (case map_of d name of
        None \<Rightarrow> (case dflt of Required \<Rightarrow> None | Default x \<Rightarrow> Some x)
      | Some x \<Rightarrow> v x)"

fun validate_fields :: "field list \<Rightarrow> dict \<Rightarrow> dict option" where
  "validate_fields [] d = Some []"
| "validate_fields (f # fs) d =
     (case validate_field f d of
        None \<Rightarrow> None
      | Some y \<Rightarrow>
          (case validate_fields fs d of
             None \<Rightarrow> None
           | Some r \<Rightarrow> Some ((fst f, y) # r)))"

fun validate :: "field list \<Rightarrow> json \<Rightarrow> dict option" where
  "validate fs (JObj d) = validate_fields fs d"
| "validate fs _ = None"

definition v_model :: "field list \<Rightarrow> json \<Rightarrow> json option" where
  "v_model fs j = map_option JObj (validate fs j)"

subsection \<open>The models\<close>

definition Artwork :: "prims \<Rightarrow> field list" where
  "Artwork P =
    [(''artist_id'', v_str, Required),
     (''title'', v_str, Required),
     (''story'', v_optional v_str, Default JNull),
     (''media'', v_optional v_str, Default JNull),
     (''dimensions'', v_optional v_str, Default JNull),
     (''year'', v_optional (v_int P), Default JNull),
     (''images'', v_list (v_url P), Default (JArr [])),
     (''price_range'', v_optional v_str, Default JNull),
     (''availability_status'',
        v_literal [''available'', ''reserved'', ''sold'', ''commission_only''],
        Default (JStr ''available'')),
     (''tags'', v_list v_str, Default (JArr [])),
     (''location'', v_optional v_str, Default JNull),
     (''shipping_options'', v_list v_str,
        Default (JArr [JStr ''artist-arranged'', JStr ''insured-courier'', JStr ''local-pickup''])),
     (''likes'', v_int P, Default (JInt 0)),
     (''views'', v_int P, Default (JInt 0))]"

definition Supply :: "prims \<Rightarrow> field list" where
  "Supply P =
    [(''title'', v_str, Required),
     (''description'', v_optional v_str, Default JNull),
     (''price'', v_ge 0 (v_float P), Required),
     (''category'', v_str, Required),
     (''images'', v_list (v_url P), Default (JArr [])),
     (''stock'', v_ge 0 (v_int P), Default (JInt 0)),
     (''brand'', v_optional v_str, Default JNull)]"

definition OrderItem :: "prims \<Rightarrow> field list" where
  "OrderItem P =
    [(''supply_id'', v_str, Required),
     (''title'', v_str, Required),
     (''price'', v_float P, Required),
     (''quantity'', v_ge 1 (v_int P), Default (JInt 1))]"

definition Order :: "prims \<Rightarrow> field list" where
  "Order P =
    [(''buyer_name'', v_str, Required),
     (''buyer_email'', v_str, Required),
     (''shipping_address'', v_str, Required),
     (''items'', v_list (v_model (OrderItem P)), Required),
     (''total_amount'', v_ge 0 (v_float P), Required),
     (''status'',
        v_literal [''pending'', ''paid'', ''shipped'', ''delivered'', ''cancelled''],
        Default (JStr ''pending''))]"

definition Post :: "prims \<Rightarrow> field list" where
  "Post P =
    [(''author_id'', v_str, Required),
     (''text'', v_str, Required),
     (''images'', v_list (v_url P), Default (JArr [])),
     (''tags'', v_list v_str, Default (JArr [])),
     (''likes'', v_int P, Default (JInt 0)),
     (''comments_count'', v_int P, Default (JInt 0))]"

definition Comment :: "prims \<Rightarrow> field list" where
  "Comment P =
    [(''post_id'', v_str, Required),
     (''author_id'', v_str, Required),
     (''text'', v_str, Required),
     (''likes'', v_int P, Default (JInt 0)),
     (''created_at'', v_optional (v_datetime P), Default JNull)]"

section \<open>The request handlers (main.py)\<close>

text \<open>
  The two functions of the storage module are parameters of every handler: \<open>cd\<close> stands
  for \<open>create_document(collection, data)\<close>, which takes the state of the store and
  returns the new identifier (or an error) and the state after it; \<open>gd\<close> stands for
  \<open>get_documents(collection, filter, limit)\<close>, where \<open>None\<close> is an argument the call
  leaves out. A handler whose body is not reached leaves the state as it was.
\<close>

datatype cond = Eq json | In "json list"

type_synonym filter = "(string \<times> cond) list"

definition create_artwork ::
  "prims \<Rightarrow> (string \<Rightarrow> dict \<Rightarrow> 's \<Rightarrow> (error + 'i) \<times> 's) \<Rightarrow> json \<Rightarrow> 's \<Rightarrow> (error + 'i) \<times> 's" where
  "create_artwork P cd body st =
     (case validate (Artwork P) body of
        None \<Rightarrow> (Inl ValidationFailure, st)
      | Some artwork \<Rightarrow> cd ''artwork'' artwork st)"

definition create_supply ::
  "prims \<Rightarrow> (string \<Rightarrow> dict \<Rightarrow> 's \<Rightarrow> (error + 'i) \<times> 's) \<Rightarrow> json \<Rightarrow> 's \<Rightarrow> (error + 'i) \<times> 's" where
  "create_supply P cd body st =
     (case validate (Supply P) body of
        None \<Rightarrow> (Inl ValidationFailure, st)
      | Some supply \<Rightarrow> cd ''supply'' supply st)"

definition create_post ::
  "prims \<Rightarrow> (string \<Rightarrow> dict \<Rightarrow> 's \<Rightarrow> (error + 'i) \<times> 's) \<Rightarrow> json \<Rightarrow> 's \<Rightarrow> (error + 'i) \<times> 's" where
  "create_post P cd body st =
     (case validate (Post P) body of
        None \<Rightarrow> (Inl ValidationFailure, st)
      | Some post \<Rightarrow> cd ''post'' post st)"

definition create_comment ::
  "prims \<Rightarrow> (string \<Rightarrow> dict \<Rightarrow> 's \<Rightarrow> (error + 'i) \<times> 's) \<Rightarrow> json \<Rightarrow> 's \<Rightarrow> (error + 'i) \<times> 's" where
  "create_comment P cd body st =
     (case validate (Comment P) body of
        None \<Rightarrow> (Inl ValidationFailure, st)
      | Some comment \<Rightarrow> cd ''comment'' comment st)"

text \<open>
  \<open>OrderInput\<close> (main.py): three required strings and \<open>items: List[dict]\<close>; any other
  field of the body is not read.
\<close>

record OrderInput =
  buyer_name :: string
  buyer_email :: string
  shipping_address :: string
  items :: "dict list"

definition req_str :: "dict \<Rightarrow> string \<Rightarrow> string option" where
  "req_str d k = (case map_of d k of Some (JStr s) \<Rightarrow> Some s | _ \<Rightarrow> None)"

fun as_dict :: "json \<Rightarrow> dict option" where
  "as_dict (JObj d) = Some d"
| "as_dict _ = None"

definition req_dicts :: "dict \<Rightarrow> string \<Rightarrow> dict list option" where
  "req_dicts d k = (case map_of d k of Some (JArr xs) \<Rightarrow> those (map as_dict xs) | _ \<Rightarrow> None)"

fun parse_OrderInput :: "json \<Rightarrow> OrderInput option" where
  "parse_OrderInput (JObj d) =
     (case req_str d ''buyer_name'' of None \<Rightarrow> None | Some n \<Rightarrow>
      (case req_str d ''buyer_email'' of None \<Rightarrow> None | Some e \<Rightarrow>
       (case req_str d ''shipping_address'' of None \<Rightarrow> None | Some a \<Rightarrow>
        (case req_dicts d ''items'' of None \<Rightarrow> None | Some its \<Rightarrow>
           Some \<lparr>buyer_name = n, buyer_email = e, shipping_address = a, items = its\<rparr>))))"
| "parse_OrderInput _ = None"

text \<open>
  The keyword arguments of \<open>Order(...)\<close> in \<open>create_order\<close>: the three strings and the
  raw items of the input, the computed total, and the literal \<open>"pending"\<close>.
\<close>

definition order_kwargs :: "OrderInput \<Rightarrow> double \<Rightarrow> dict" where
  "order_kwargs order tot =
    [(''buyer_name'', JStr (buyer_name order)),
     (''buyer_email'', JStr (buyer_email order)),
     (''shipping_address'', JStr (shipping_address order)),
     (''items'', JArr (map JObj (items order))),
     (''total_amount'', JFloat tot),
     (''status'', JStr ''pending'')]"

text \<open>
  The body of \<open>create_order\<close> up to the call of \<open>create_document\<close>: the loop, then the
  construction of the \<open>Order\<close>, which validates. The result is the document handed to
  the store.
\<close>

definition order_document :: "prims \<Rightarrow> OrderInput \<Rightarrow> error + dict" where
  "order_document P order =
     (case compute_total P (Finite 0) (items order) of
        Inl e \<Rightarrow> Inl e
      | Inr tot \<Rightarrow>
          (case validate_fields (Order P) (order_kwargs order tot) of
             None \<Rightarrow> Inl ValidationError
           | Some order_doc \<Rightarrow> Inr order_doc))"

definition create_order ::
  "prims \<Rightarrow> (string \<Rightarrow> dict \<Rightarrow> 's \<Rightarrow> (error + 'i) \<times> 's) \<Rightarrow> json \<Rightarrow> 's \<Rightarrow> (error + 'i) \<times> 's" where
  "create_order P cd body st =
     (case parse_OrderInput body of
        None \<Rightarrow> (Inl ValidationFailure, st)
      | Some order \<Rightarrow>
          (case order_document P order of
             Inl e \<Rightarrow> (Inl e, st)
           | Inr order_doc \<Rightarrow> cd ''order'' order_doc st))"

text \<open>
  The list handlers. An optional query parameter is \<open>None\<close> when the request does not
  carry it; \<open>if tag\<close> is false for \<open>None\<close> and for the empty string.
\<close>

definition truthy :: "string option \<Rightarrow> bool" where
  "truthy x = (case x of None \<Rightarrow> False | Some s \<Rightarrow> s \<noteq> [])"

definition tag_filter :: "string option \<Rightarrow> filter" where
  "tag_filter tag =
     (if truthy tag then (case tag of None \<Rightarrow> [] | Some t \<Rightarrow> [(''tags'', In [JStr t])]) else [])"

definition category_filter :: "string option \<Rightarrow> filter" where
  "category_filter category =
     (if truthy category
      then (case category of None \<Rightarrow> [] | Some c \<Rightarrow> [(''category'', Eq (JStr c))]) else [])"

definition list_users ::
  "(string \<Rightarrow> filter option \<Rightarrow> nat option \<Rightarrow> 's \<Rightarrow> error + 'r) \<Rightarrow> 's \<Rightarrow> error + 'r" where
  "list_users gd st = gd ''user'' None None st"

definition list_artworks ::
  "(string \<Rightarrow> filter option \<Rightarrow> nat option \<Rightarrow> 's \<Rightarrow> error + 'r) \<Rightarrow> string option \<Rightarrow> 's \<Rightarrow> error + 'r" where
  "list_artworks gd tag st = gd ''artwork'' (Some (tag_filter tag)) (Some 50) st"

definition list_supplies ::
  "(string \<Rightarrow> filter option \<Rightarrow> nat option \<Rightarrow> 's \<Rightarrow> error + 'r) \<Rightarrow> string option \<Rightarrow> 's \<Rightarrow> error + 'r" where
  "list_supplies gd category st = gd ''supply'' (Some (category_filter category)) (Some 100) st"

definition list_orders ::
  "(string \<Rightarrow> filter option \<Rightarrow> nat option \<Rightarrow> 's \<Rightarrow> error + 'r) \<Rightarrow> 's \<Rightarrow> error + 'r" where
  "list_orders gd st = gd ''order'' (Some []) (Some 50) st"

definition list_posts ::
  "(string \<Rightarrow> filter option \<Rightarrow> nat option \<Rightarrow> 's \<Rightarrow> error + 'r) \<Rightarrow> string option \<Rightarrow> 's \<Rightarrow> error + 'r" where
  "list_posts gd tag st = gd ''post'' (Some (tag_filter tag)) (Some 50) st"

text \<open>
  \<open>post_id: str\<close> has no default: a request without it is refused by the framework with
  the client error of a missing parameter, and the handler body does not run.
\<close>

definition list_comments ::
  "(string \<Rightarrow> filter option \<Rightarrow> nat option \<Rightarrow> 's \<Rightarrow> error + 'r) \<Rightarrow> string option \<Rightarrow> 's \<Rightarrow> error + 'r" where
  "list_comments gd post_id st =
     (case post_id of
        None \<Rightarrow> Inl MissingRequiredParameter
      | Some p \<Rightarrow> gd ''comment'' (Some [(''post_id'', Eq (JStr p))]) (Some 100) st)"

section \<open>The document store\<close>

text \<open>
  The storage module (\<open>database.py\<close>, which defines \<open>create_document\<close> and
  \<open>get_documents\<close>) is not among the sources; the store below follows the spec. A
  collection is the list of its records in insertion order, keyed by the lowercased
  entity name; the identifiers come from a counter.
\<close>

record store =
  available :: bool
  colls :: "string \<Rightarrow> dict list"
  next_id :: nat

text \<open>
  Modelled from the spec: \<open>create_document\<close> of the missing \<open>database.py\<close>. The
  spec: \<open>create(entityType, value)\<close> "assigns a new unique identifier, writes the
  record, returns the identifier. Fails with a \<open>StorageUnavailable\<close> condition if the
  underlying store is not reachable"; the identity field is "assigned at creation time
  by the persistence layer".
\<close>

definition create_document :: "string \<Rightarrow> dict \<Rightarrow> store \<Rightarrow> (error + nat) \<times> store" where
  "create_document name data st =
     (if available st
      then (Inr (next_id st),
            st\<lparr>colls := (colls st)(name := colls st name @ [(''_id'', JInt (int (next_id st))) # data]),
               next_id := Suc (next_id st)\<rparr>)
      else (Inl StorageUnavailable, st))"

text \<open>
  Modelled from the spec: the filters that the missing \<open>get_documents\<close> understands.
  The spec: "Filters supported: equality, and set-membership (field contains one of a
  given set of values)". A record matches a filter when every condition of the filter
  holds of the field it names; a field the record lacks satisfies no condition.
\<close>

fun holds :: "cond \<Rightarrow> json option \<Rightarrow> bool" where
  "holds c None = False"
| "holds (Eq v) (Some x) = (x = v)"
| "holds (In vs) (Some (JArr xs)) = list_ex (\<lambda>x. x \<in> set vs) xs"
| "holds (In vs) (Some _) = False"

definition matches :: "filter \<Rightarrow> dict \<Rightarrow> bool" where
  "matches filt doc = list_all (\<lambda>(k, c). holds c (map_of doc k)) filt"

text \<open>
  Modelled from the spec: the limit of the missing \<open>get_documents\<close>. The spec: "returns
  up to \<open>limit\<close> records"; "User unbounded (no limit applied)", so a call without
  limit keeps every record.
\<close>

fun limited :: "nat option \<Rightarrow> 'a list \<Rightarrow> 'a list" where
  "limited None xs = xs"
| "limited (Some n) xs = take n xs"

text \<open>
  Modelled from the spec: \<open>get_documents\<close> of the missing \<open>database.py\<close>. The spec:
  \<open>list(entityType, filter, limit)\<close> "returns up to \<open>limit\<close> records matching
  \<open>filter\<close>, store-defined ordering", and the failure of an unreachable store is
  "surfaced as a server error on create/list paths". A call without filter matches
  every record.
\<close>

definition get_documents ::
  "string \<Rightarrow> filter option \<Rightarrow> nat option \<Rightarrow> store \<Rightarrow> error + dict list" where
  "get_documents name filt limit st =
     (if available st
      then Inr (limited limit
                  (filter (matches (case filt of None \<Rightarrow> [] | Some f \<Rightarrow> f)) (colls st name)))
      else Inl StorageUnavailable)"

text \<open>A record carries a tag when its \<open>tags\<close> field is a list that contains it.\<close>

definition has_tag :: "string \<Rightarrow> dict \<Rightarrow> bool" where
  "has_tag t doc = (case map_of doc ''tags'' of Some (JArr ts) \<Rightarrow> JStr t \<in> set ts | _ \<Rightarrow> False)"

section \<open>Concrete inputs\<close>

text \<open>
  Primitives that refuse every string, for evaluating the model on inputs whose numbers
  are JSON numbers; and the reachable store that holds nothing yet.
\<close>

definition strict_prims :: prims where
  "strict_prims =
     \<lparr>float_of_str = (\<lambda>s. None), int_of_str = (\<lambda>s. None),
      lax_float = (\<lambda>s. None), lax_int = (\<lambda>s. None),
      http_url = (\<lambda>s. False), datetime = (\<lambda>j. False)\<rparr>"

definition empty_store :: store where
  "empty_store = \<lparr>available = True, colls = (\<lambda>name. []), next_id = 0\<rparr>"

text \<open>
  A valid Artwork body with one tag and the document its validation gives; \<open>n\<close> such
  records as the store numbers them; the store after \<open>n\<close> calls of \<open>create_artwork\<close>
  with that body; and a reachable store whose only non-empty collection is \<open>name\<close>.
\<close>

definition artwork_body :: "string \<Rightarrow> json" where
  "artwork_body t =
     JObj [(''artist_id'', JStr ''u1''), (''title'', JStr ''Dawn''), (''tags'', JArr [JStr t])]"

definition artwork_doc :: "string \<Rightarrow> dict" where
  "artwork_doc t =
    [(''artist_id'', JStr ''u1''),
     (''title'', JStr ''Dawn''),
     (''story'', JNull),
     (''media'', JNull),
     (''dimensions'', JNull),
     (''year'', JNull),
     (''images'', JArr []),
     (''price_range'', JNull),
     (''availability_status'', JStr ''available''),
     (''tags'', JArr [JStr t]),
     (''location'', JNull),
     (''shipping_options'',
        JArr [JStr ''artist-arranged'', JStr ''insured-courier'', JStr ''local-pickup'']),
     (''likes'', JInt 0),
     (''views'', JInt 0)]"

definition numbered :: "nat \<Rightarrow> dict list" where
  "numbered n = map (\<lambda>i. (''_id'', JInt (int i)) # artwork_doc ''abstract'') [0..<n]"

fun created :: "nat \<Rightarrow> store" where
  "created 0 = empty_store"
| "created (Suc n) =
     snd (create_artwork strict_prims create_document (artwork_body ''abstract'') (created n))"

definition store_with :: "string \<Rightarrow> dict list \<Rightarrow> store" where
  "store_with name docs =
     \<lparr>available = True, colls = (\<lambda>c. if c = name then docs else []), next_id = length docs\<rparr>"

section \<open>Properties of validation and of the total\<close>

text \<open>
  An integer of magnitude below \<open>2^53\<close> is a double: rounding leaves it as it is, and
  its conversion to a float is exact.
\<close>

lemma round_half_even_int: "round_half_even (of_int k) = k"
  by (simp add: round_half_even_def)

lemma ilog2_int:
  assumes "0 < m"
  shows "ilog2 (of_int m) = bitlen m - 1"
proof -
  have b1: "bitlen 1 = 1"
    using compute_bitlen [of 1] by simp
  have nn: "0 \<le> bitlen m - 1"
    using assms bitlen_eq_zero_iff [of m] bitlen_nonneg [of m] by force
  have "(2::int) ^ nat (bitlen m - 1) \<le> m"
    using bitlen_bounds [OF assms] by simp
  then have "(of_int ((2::int) ^ nat (bitlen m - 1)) :: rat) \<le> of_int m"
    by (rule of_int_le_iff [THEN iffD2])
  then have "pow2 (bitlen m - 1) \<le> of_int m"
    using nn by (simp add: pow2_def)
  then show ?thesis
    by (simp add: ilog2_def b1)
qed

lemma round_double_int:
  assumes "\<bar>n\<bar> < 2 ^ 53"
  shows "round_double (of_int n) = Finite (of_int n)"
proof (cases "n = 0")
  case True
  then show ?thesis by (simp add: round_double_def)
next
  case False
  define m where "m = \<bar>n\<bar>"
  define e where "e = bitlen m - 1"
  define k where "k = nat (52 - e)"
  have m: "0 < m" "m < 2 ^ 53"
    using False assms by (simp_all add: m_def)
  have abs: "\<bar>of_int n :: rat\<bar> = of_int m"
    by (simp add: m_def)
  have e0: "0 \<le> e"
    unfolding e_def using m(1) bitlen_eq_zero_iff [of m] bitlen_nonneg [of m] by force
  have "bitlen m \<le> 53"
    using m(2) bitlen_le_iff_power [of m 53] by simp
  then have e52: "e \<le> 52"
    by (simp add: e_def)
  have il: "ilog2 (of_int m) = e"
    using ilog2_int [OF m(1)] by (simp add: e_def)
  have q: "pow2 (max e (- 1022) - 52) = 1 / 2 ^ k"
  proof (cases "e = 52")
    case True
    then show ?thesis by (simp add: pow2_def k_def)
  next
    case False
    with e52 e0 show ?thesis by (simp add: pow2_def k_def max_def)
  qed
  have d: "(of_int m :: rat) / (1 / 2 ^ k) = of_int (m * 2 ^ k)"
    by simp
  have v: "of_int (round_half_even ((of_int m :: rat) / (1 / 2 ^ k))) * (1 / 2 ^ k) = (of_int m :: rat)"
    unfolding d round_half_even_int by simp
  have "(of_int m :: rat) < 2 ^ 53"
    using m(2) by (metis of_int_less_iff of_int_numeral of_int_power)
  also have "(2 :: rat) ^ 53 \<le> 2 ^ 1024"
    by (rule power_increasing) simp_all
  finally have lt: "\<not> pow2 1024 \<le> (of_int m :: rat)"
    by (simp add: pow2_def)
  have nz: "(of_int n :: rat) \<noteq> 0" "(of_int m :: rat) \<noteq> 0"
    using False m(1) by simp_all
  have sg: "(if (0 :: rat) < of_int n then of_int m else - of_int m) = (of_int n :: rat)"
    by (simp add: m_def)
  show ?thesis
    unfolding round_double_def Let_def abs il q v
    using nz lt sg by simp
qed

lemma round_double_numeral:
  "numeral k < (2 :: int) ^ 53 \<Longrightarrow> round_double (numeral k) = Finite (numeral k)"
  "numeral k < (2 :: int) ^ 53 \<Longrightarrow> round_double (- numeral k) = Finite (- numeral k)"
  "round_double 1 = Finite 1"
  using round_double_int [of "numeral k"] round_double_int [of "- numeral k"] round_double_int [of 1]
  by simp_all

lemma float_of_int_exact: "\<bar>n\<bar> < 2 ^ 53 \<Longrightarrow> float_of_int n = Inr (Finite (of_int n))"
  by (simp add: float_of_int_def round_double_int)

lemma float_of_int_numeral:
  "numeral k < (2 :: int) ^ 53 \<Longrightarrow> float_of_int (numeral k) = Inr (Finite (numeral k))"
  "numeral k < (2 :: int) ^ 53 \<Longrightarrow> float_of_int (- numeral k) = Inr (Finite (- numeral k))"
  "float_of_int 1 = Inr (Finite 1)"
  "float_of_int 0 = Inr (Finite 0)"
  using float_of_int_exact [of "numeral k"] float_of_int_exact [of "- numeral k"]
    float_of_int_exact [of 1] float_of_int_exact [of 0]
  by simp_all

lemma round_double_0: "round_double 0 = Finite 0"
  by (simp add: round_double_def)

lemma fmul_Finite [simp]:
  "fmul (Finite a) (Finite b) =
     (if a * b = 0 then (if (a < 0) = (b < 0) then Finite 0 else NZero) else round_double (a * b))"
  by (simp add: fmul_def)



text \<open>
  A model validates only if each declared field does, and the validated model holds,
  under each declared name, what that field's validation returned.
\<close>

lemma validate_fields_None:
  "f \<in> set fs \<Longrightarrow> validate_field f d = None \<Longrightarrow> validate_fields fs d = None"
  by (induction fs) (auto split: option.splits)



lemma those_map_None:
  "x \<in> set xs \<Longrightarrow> f x = None \<Longrightarrow> those (map f xs) = None"
  by (induction xs) (auto split: option.splits)

lemma order_invalid_item:
  assumes "item \<in> set (items order)" and "validate_fields (OrderItem P) item = None"
  shows "validate_fields (Order P) (order_kwargs order tot) = None"
proof -
  have "v_model (OrderItem P) (JObj item) = None"
    using assms(2) by (simp add: v_model_def)
  moreover have "JObj item \<in> set (map JObj (items order))"
    using assms(1) by simp
  ultimately have "those (map (v_model (OrderItem P)) (map JObj (items order))) = None"
    by (rule those_map_None [rotated])
  then have "validate_field (''items'', v_list (v_model (OrderItem P)), Required) (order_kwargs order tot) = None"
    by (simp add: order_kwargs_def)
  moreover have "(''items'', v_list (v_model (OrderItem P)), Required) \<in> set (Order P)"
    by (simp add: Order_def)
  ultimately show ?thesis
    by (rule validate_fields_None [rotated])
qed

lemma order_negative_total:
  assumes "float_lt tot 0"
  shows "validate_fields (Order P) (order_kwargs order tot) = None"
proof -
  have "validate_field (''total_amount'', v_ge 0 (v_float P), Required) (order_kwargs order tot) = None"
    using assms by (simp add: order_kwargs_def v_ge_def)
  moreover have "(''total_amount'', v_ge 0 (v_float P), Required) \<in> set (Order P)"
    by (simp add: Order_def)
  ultimately show ?thesis
    by (rule validate_fields_None [rotated])
qed

lemma quantity_below_one:
  assumes "map_of item ''quantity'' = Some x" and "v_int P x = Some (JInt n)" and "n < 1"
  shows "validate_fields (OrderItem P) item = None"
proof -
  have "validate_field (''quantity'', v_ge 1 (v_int P), Default (JInt 1)) item = None"
    using assms by (simp add: v_ge_def)
  moreover have "(''quantity'', v_ge 1 (v_int P), Default (JInt 1)) \<in> set (OrderItem P)"
    by (simp add: OrderItem_def)
  ultimately show ?thesis
    by (rule validate_fields_None [rotated])
qed

text \<open>What makes the validation of a request body fail.\<close>

lemma missing_required:
  "(name, v, Required) \<in> set fs \<Longrightarrow> map_of d name = None \<Longrightarrow> validate fs (JObj d) = None"
  using validate_fields_None [of "(name, v, Required)" fs d] by simp

lemma invalid_present:
  "(name, v, dflt) \<in> set fs \<Longrightarrow> map_of d name = Some x \<Longrightarrow> v x = None \<Longrightarrow>
   validate fs (JObj d) = None"
  using validate_fields_None [of "(name, v, dflt)" fs d] by simp

lemma v_literal_outside: "x \<notin> JStr ` set ss \<Longrightarrow> v_literal ss x = None"
  by (cases x) auto

lemma artwork_rejected:
  assumes "map_of d ''artist_id'' = None \<or> map_of d ''title'' = None \<or>
     (\<exists>x. map_of d ''availability_status'' = Some x \<and>
          x \<notin> JStr ` set [''available'', ''reserved'', ''sold'', ''commission_only''])"
  shows "validate (Artwork P) (JObj d) = None"
proof -
  have a: "(''artist_id'', v_str, Required) \<in> set (Artwork P)"
    and t: "(''title'', v_str, Required) \<in> set (Artwork P)"
    and s: "(''availability_status'',
        v_literal [''available'', ''reserved'', ''sold'', ''commission_only''],
        Default (JStr ''available'')) \<in> set (Artwork P)"
    by (simp_all add: Artwork_def)
  from assms show ?thesis
  proof (elim disjE exE conjE)
    assume "map_of d ''artist_id'' = None"
    with a show ?thesis by (rule missing_required)
  next
    assume "map_of d ''title'' = None"
    with t show ?thesis by (rule missing_required)
  next
    fix x
    assume x: "map_of d ''availability_status'' = Some x"
      and n: "x \<notin> JStr ` set [''available'', ''reserved'', ''sold'', ''commission_only'']"
    from n have "v_literal [''available'', ''reserved'', ''sold'', ''commission_only''] x = None"
      by (rule v_literal_outside)
    with s x show ?thesis by (rule invalid_present)
  qed
qed

lemma supply_rejected:
  assumes "map_of d ''title'' = None \<or> map_of d ''price'' = None \<or> map_of d ''category'' = None"
  shows "validate (Supply P) (JObj d) = None"
proof -
  have "(''title'', v_str, Required) \<in> set (Supply P)"
    and "(''price'', v_ge 0 (v_float P), Required) \<in> set (Supply P)"
    and "(''category'', v_str, Required) \<in> set (Supply P)"
    by (simp_all add: Supply_def)
  with assms show ?thesis
    using missing_required by blast
qed

lemma post_rejected:
  assumes "map_of d ''author_id'' = None \<or> map_of d ''text'' = None"
  shows "validate (Post P) (JObj d) = None"
proof -
  have "(''author_id'', v_str, Required) \<in> set (Post P)"
    and "(''text'', v_str, Required) \<in> set (Post P)"
    by (simp_all add: Post_def)
  with assms show ?thesis
    using missing_required by blast
qed

lemma comment_rejected:
  assumes "map_of d ''post_id'' = None \<or> map_of d ''author_id'' = None \<or> map_of d ''text'' = None"
  shows "validate (Comment P) (JObj d) = None"
proof -
  have "(''post_id'', v_str, Required) \<in> set (Comment P)"
    and "(''author_id'', v_str, Required) \<in> set (Comment P)"
    and "(''text'', v_str, Required) \<in> set (Comment P)"
    by (simp_all add: Comment_def)
  with assms show ?thesis
    using missing_required by blast
qed

lemma supply_negative:
  assumes "(map_of d ''price'' = Some x \<and> v_float P x = Some (JFloat r) \<and> float_lt r 0) \<or>
           (map_of d ''stock'' = Some y \<and> v_int P y = Some (JInt n) \<and> n < 0)"
  shows "validate (Supply P) (JObj d) = None"
proof -
  have p: "(''price'', v_ge 0 (v_float P), Required) \<in> set (Supply P)"
    and s: "(''stock'', v_ge 0 (v_int P), Default (JInt 0)) \<in> set (Supply P)"
    by (simp_all add: Supply_def)
  from assms show ?thesis
  proof (elim disjE conjE)
    assume x: "map_of d ''price'' = Some x" and "v_float P x = Some (JFloat r)" and "float_lt r 0"
    then have "v_ge 0 (v_float P) x = None"
      by (simp add: v_ge_def)
    with p x show ?thesis by (rule invalid_present)
  next
    assume y: "map_of d ''stock'' = Some y" and "v_int P y = Some (JInt n)" and "n < 0"
    then have "v_ge 0 (v_int P) y = None"
      by (simp add: v_ge_def)
    with s y show ?thesis by (rule invalid_present)
  qed
qed

text \<open>The filters the handlers build, read on a record; the store's limit.\<close>

lemma matches_tag: "t \<noteq> [] \<Longrightarrow> matches (tag_filter (Some t)) doc = has_tag t doc"
  by (auto simp: matches_def tag_filter_def truthy_def has_tag_def list_ex_iff
      split: option.splits json.splits)

lemma matches_post_id:
  "matches [(''post_id'', Eq (JStr p))] doc = (map_of doc ''post_id'' = Some (JStr p))"
  by (cases "map_of doc ''post_id''") (simp_all add: matches_def)

lemma matches_post_id_fun:
  "matches [(''post_id'', Eq (JStr p))] = (\<lambda>doc. map_of doc ''post_id'' = Some (JStr p))"
  by (rule ext) (rule matches_post_id)

lemma matches_tag_fun: "t \<noteq> [] \<Longrightarrow> matches (tag_filter (Some t)) = has_tag t"
  by (rule ext) (rule matches_tag)

lemma get_documents_length:
  "get_documents name filt (Some n) st = Inr docs \<Longrightarrow> length docs \<le> n"
  by (auto simp: get_documents_def split: if_splits)

lemma numbered_tagged: "filter (has_tag ''abstract'') (numbered n) = numbered n"
  by (simp add: numbered_def has_tag_def artwork_doc_def filter_map o_def)

lemma take_numbered: "m \<le> n \<Longrightarrow> take m (numbered n) = numbered m"
  by (simp add: numbered_def take_map)

lemma length_numbered: "length (numbered n) = n"
  by (simp add: numbered_def)

text \<open>Creating the same valid Artwork \<open>n\<close> times stores \<open>n\<close> numbered records.\<close>

lemma validate_artwork_body:
  "validate (Artwork P) (artwork_body t) = Some (artwork_doc t)"
  by (simp add: Artwork_def artwork_body_def artwork_doc_def)

lemma create_artwork_body:
  "available st \<Longrightarrow>
   create_artwork P create_document (artwork_body t) st =
     (Inr (next_id st),
      st\<lparr>colls := (colls st)(''artwork'' :=
                 colls st ''artwork'' @ [(''_id'', JInt (int (next_id st))) # artwork_doc t]),
         next_id := Suc (next_id st)\<rparr>)"
  by (simp add: create_artwork_def validate_artwork_body create_document_def)

lemma created_eq: "created n = store_with ''artwork'' (numbered n)"
proof (induction n)
  case 0
  show ?case
    by (simp add: empty_store_def store_with_def numbered_def)
next
  case (Suc n)
  have "available (store_with ''artwork'' (numbered n))"
    by (simp add: store_with_def)
  then show ?case
    by (simp add: Suc create_artwork_body)
      (auto simp: store_with_def numbered_def fun_eq_iff)
qed

lemma numbered_untagged: "filter (has_tag []) (numbered n) = []"
  by (simp add: numbered_def has_tag_def artwork_doc_def filter_map o_def)

lemma float_ge_not_lt: "float_ge x b \<Longrightarrow> \<not> float_lt x b"
  by (cases x) auto

text \<open>
  When every price and quantity is an integer of magnitude below \<open>2^53\<close> and the
  magnitudes of the running total and of the products add up to less than \<open>2^53\<close>,
  nothing is rounded: the loop returns the exact integer sum.
\<close>

lemma fmul_ints:
  assumes "\<bar>p * q\<bar> < 2 ^ 53"
  shows "fmul (Finite (of_int p)) (Finite (of_int q)) = Finite (of_int (p * q)) \<or>
         (p * q = 0 \<and> fmul (Finite (of_int p)) (Finite (of_int q)) = NZero)"
proof (cases "p * q = 0")
  case True
  then show ?thesis by auto
next
  case False
  then have "(of_int p :: rat) * of_int q \<noteq> 0"
    by simp
  moreover have "round_double (of_int (p * q)) = Finite (of_int (p * q))"
    using assms by (rule round_double_int)
  ultimately show ?thesis
    by simp
qed

lemma fadd_ints:
  assumes "\<bar>a + b\<bar> < 2 ^ 53"
  shows "fadd (Finite (of_int a)) (Finite (of_int b)) = Finite (of_int (a + b))"
  using round_double_int [OF assms] by simp

lemma compute_total_ints:
  assumes "map (\<lambda>item. dict_get item ''price'' (JInt 0)) its = map JInt ps"
    and "map (\<lambda>item. dict_get item ''quantity'' (JInt 1)) its = map JInt qs"
    and "\<forall>p\<in>set ps. \<bar>p\<bar> < 2 ^ 53"
    and "\<forall>q\<in>set qs. \<bar>q\<bar> < 2 ^ 53"
    and "\<bar>t\<bar> + (\<Sum>(p, q)\<leftarrow>zip ps qs. \<bar>p * q\<bar>) < 2 ^ 53"
  shows "compute_total P (Finite (of_int t)) its
    = Inr (Finite (of_int (t + (\<Sum>(p, q)\<leftarrow>zip ps qs. p * q))))"
  using assms
proof (induction its arbitrary: ps qs t)
  case Nil
  then show ?case by simp
next
  case (Cons item its)
  from Cons.prems(1) obtain p ps' where ps: "ps = p # ps'"
    and p: "dict_get item ''price'' (JInt 0) = JInt p"
    and ps': "map (\<lambda>item. dict_get item ''price'' (JInt 0)) its = map JInt ps'"
    by (cases ps) auto
  from Cons.prems(2) obtain q qs' where qs: "qs = q # qs'"
    and q: "dict_get item ''quantity'' (JInt 1) = JInt q"
    and qs': "map (\<lambda>item. dict_get item ''quantity'' (JInt 1)) its = map JInt qs'"
    by (cases qs) auto
  have bp: "\<bar>p\<bar> < 2 ^ 53" and bq: "\<bar>q\<bar> < 2 ^ 53"
    and bps: "\<forall>p\<in>set ps'. \<bar>p\<bar> < 2 ^ 53" and bqs: "\<forall>q\<in>set qs'. \<bar>q\<bar> < 2 ^ 53"
    using Cons.prems(3,4) ps qs by simp_all
  have nn: "0 \<le> (\<Sum>(p, q)\<leftarrow>zip ps' qs'. \<bar>p * q\<bar>)"
    by (rule sum_list_nonneg) auto
  have tot: "\<bar>t\<bar> + \<bar>p * q\<bar> + (\<Sum>(p, q)\<leftarrow>zip ps' qs'. \<bar>p * q\<bar>) < 2 ^ 53"
    using Cons.prems(5) ps qs by simp
  have bpq: "\<bar>p * q\<bar> < 2 ^ 53" and bt: "\<bar>t + p * q\<bar> < 2 ^ 53"
    and rest: "\<bar>t + p * q\<bar> + (\<Sum>(p, q)\<leftarrow>zip ps' qs'. \<bar>p * q\<bar>) < 2 ^ 53"
    using tot nn by linarith+
  have step: "fadd (Finite (of_int t)) (fmul (Finite (of_int p)) (Finite (of_int q)))
      = Finite (of_int (t + p * q))"
  proof -
    from fmul_ints [OF bpq] show ?thesis
    proof
      assume fm: "fmul (Finite (of_int p)) (Finite (of_int q)) = Finite (of_int (p * q))"
      show ?thesis unfolding fm by (rule fadd_ints [OF bt])
    next
      assume z: "p * q = 0 \<and> fmul (Finite (of_int p)) (Finite (of_int q)) = NZero"
      then have fm: "fmul (Finite (of_int p)) (Finite (of_int q)) = NZero" and pq: "p * q = 0"
        by blast+
      show ?thesis unfolding fm pq by simp
    qed
  qed
  have "compute_total P (Finite (of_int t)) (item # its)
      = compute_total P (Finite (of_int (t + p * q))) its"
    using p q step by (simp add: float_of_int_exact [OF bp] float_of_int_exact [OF bq])
  also have "\<dots> = Inr (Finite (of_int (t + p * q + (\<Sum>(p, q)\<leftarrow>zip ps' qs'. p * q))))"
    using ps' qs' bps bqs rest by (rule Cons.IH)
  finally show ?case
    by (simp add: ps qs add.assoc)
qed

section \<open>The claims\<close>



text \<open>
  C2. When one raw item does not validate as an \<open>OrderItem\<close>, \<open>create_order\<close> ends in
  an error with the store untouched. The total is computed first: if that raises, its
  exception is the result; otherwise the constructor of \<open>Order\<close> raises before the store
  is called. An item whose quantity converts to an integer below 1 does not validate.
\<close>

theorem invalid_item_not_persisted:
  assumes "parse_OrderInput body = Some order"
    and "item \<in> set (items order)"
    and "validate_fields (OrderItem P) item = None"
  shows "(\<forall>e. compute_total P (Finite 0) (items order) = Inl e \<longrightarrow>
            create_order P cd body st = (Inl e, st)) \<and>
         (\<forall>tot. compute_total P (Finite 0) (items order) = Inr tot \<longrightarrow>
            create_order P cd body st = (Inl ValidationError, st)) \<and>
         (\<forall>it x n. map_of it ''quantity'' = Some x \<and> v_int P x = Some (JInt n) \<and> n < 1 \<longrightarrow>
            validate_fields (OrderItem P) it = None)"
  using assms order_invalid_item [OF assms(2,3)] quantity_below_one [of _ _ P]
  by (simp add: create_order_def order_document_def)

theorem invalid_item_not_persisted_witness:
  "create_order strict_prims create_document (JObj
     [(''buyer_name'', JStr ''Ann''), (''buyer_email'', JStr ''ann@example.org''),
      (''shipping_address'', JStr ''1 Main St''),
      (''items'', JArr
         [JObj [(''supply_id'', JStr ''s1''), (''title'', JStr ''Brush''),
                (''price'', JInt 10), (''quantity'', JInt 0)]])]) empty_store
   = (Inl ValidationError, empty_store) \<and>
   create_order strict_prims create_document (JObj
     [(''buyer_name'', JStr ''Ann''), (''buyer_email'', JStr ''ann@example.org''),
      (''shipping_address'', JStr ''1 Main St''),
      (''items'', JArr
         [JObj [(''supply_id'', JStr ''s1''), (''title'', JStr ''Brush''),
                (''price'', JNull), (''quantity'', JInt 0)]])]) empty_store
   = (Inl TypeError, empty_store)"
proof -
  let ?it = "[(''supply_id'', JStr ''s1''), (''title'', JStr ''Brush''),
                (''price'', JInt 10), (''quantity'', JInt 0)]"
  let ?d = "[(''buyer_name'', JStr ''Ann''), (''buyer_email'', JStr ''ann@example.org''),
      (''shipping_address'', JStr ''1 Main St''), (''items'', JArr [JObj ?it])]"
  let ?order = "\<lparr>buyer_name = ''Ann'', buyer_email = ''ann@example.org'',
      shipping_address = ''1 Main St'', items = [?it]\<rparr>"
  let ?it' = "[(''supply_id'', JStr ''s1''), (''title'', JStr ''Brush''),
                (''price'', JNull), (''quantity'', JInt 0)]"
  let ?d' = "[(''buyer_name'', JStr ''Ann''), (''buyer_email'', JStr ''ann@example.org''),
      (''shipping_address'', JStr ''1 Main St''), (''items'', JArr [JObj ?it'])]"
  let ?order' = "\<lparr>buyer_name = ''Ann'', buyer_email = ''ann@example.org'',
      shipping_address = ''1 Main St'', items = [?it']\<rparr>"
  have h1: "parse_OrderInput (JObj ?d) = Some ?order"
    by (simp add: req_str_def req_dicts_def)
  have h2: "?it \<in> set (items ?order)"
    by simp
  have h3: "validate_fields (OrderItem strict_prims) ?it = None"
    by (simp add: OrderItem_def v_ge_def float_of_int_numeral)
  have t: "compute_total strict_prims (Finite 0) (items ?order) = Inr (Finite 0)"
    by (simp add: dict_get_def float_of_int_numeral round_double_0)
  have h1': "parse_OrderInput (JObj ?d') = Some ?order'"
    by (simp add: req_str_def req_dicts_def)
  have h2': "?it' \<in> set (items ?order')"
    by simp
  have h3': "validate_fields (OrderItem strict_prims) ?it' = None"
    by (simp add: OrderItem_def v_ge_def)
  have t': "compute_total strict_prims (Finite 0) (items ?order') = Inl TypeError"
    by (simp add: dict_get_def)
  from invalid_item_not_persisted [OF h1 h2 h3, of create_document empty_store] t
    invalid_item_not_persisted [OF h1' h2' h3', of create_document empty_store] t'
  show ?thesis by simp
qed

text \<open>
  C8. An item with a price and no \<open>quantity\<close> entry has quantity 1 in the loop, which
  converts to the float \<open>1.0\<close>, and adds the float product \<open>price * 1.0\<close> to the total;
  the item \<open>{price: 3}\<close> alone gives the total \<open>3.0\<close>, and so does every integer
  price below \<open>2^53\<close> in magnitude give itself.
\<close>

theorem missing_quantity_is_one:
  assumes "map_of item ''quantity'' = None"
    and "py_float P (dict_get item ''price'' (JInt 0)) = Inr price"
  shows "py_int P (dict_get item ''quantity'' (JInt 1)) = Inr 1 \<and>
    float_of_int 1 = Inr (Finite 1) \<and>
    compute_total P tot (item # rest) = compute_total P (fadd tot (fmul price (Finite 1))) rest \<and>
    compute_total P tot [item] = Inr (fadd tot (fmul price (Finite 1))) \<and>
    fmul (Finite 3) (Finite 1) = Finite 3 \<and>
    compute_total P (Finite 0) [[(''price'', JInt 3)]] = Inr (Finite 3) \<and>
    (\<forall>p. \<bar>p\<bar> < 2 ^ 53 \<longrightarrow>
       compute_total P (Finite 0) [[(''price'', JInt p)]] = Inr (Finite (of_int p)))"
proof -
  have "\<forall>p. \<bar>p\<bar> < 2 ^ 53 \<longrightarrow>
       compute_total P (Finite 0) [[(''price'', JInt p)]] = Inr (Finite (of_int p))"
  proof (intro allI impI)
    fix p :: int
    assume "\<bar>p\<bar> < 2 ^ 53"
    then show "compute_total P (Finite 0) [[(''price'', JInt p)]] = Inr (Finite (of_int p))"
      using compute_total_ints [of "[[(''price'', JInt p)]]" "[p]" "[1]" 0 P]
      by (simp add: dict_get_def)
  qed
  then show ?thesis
    using assms by (simp add: dict_get_def float_of_int_numeral round_double_numeral)
qed

theorem missing_quantity_is_one_witness:
  "map_of [(''price'', JInt 3)] ''quantity'' = None \<and>
   py_float strict_prims (dict_get [(''price'', JInt 3)] ''price'' (JInt 0)) = Inr (Finite 3) \<and>
   compute_total strict_prims (Finite 0) [[(''price'', JInt 3)]] = Inr (Finite 3) \<and>
   compute_total strict_prims (Finite 10)
     [[(''price'', JInt 3)], [(''price'', JInt 2), (''quantity'', JInt 5)]] = Inr (Finite 23)"
proof -
  have h1: "map_of [(''price'', JInt 3)] ''quantity'' = None"
    by simp
  have h2: "py_float strict_prims (dict_get [(''price'', JInt 3)] ''price'' (JInt 0)) = Inr (Finite 3)"
    by (simp add: dict_get_def float_of_int_numeral)
  from missing_quantity_is_one
      [OF h1 h2, of "Finite 10" "[[(''price'', JInt 2), (''quantity'', JInt 5)]]"]
    missing_quantity_is_one [OF h1 h2, of "Finite 0" "[]"] h1 h2
  show ?thesis
    by (simp add: dict_get_def float_of_int_numeral round_double_numeral)
qed

text \<open>
  C10. When the computed total is negative (a float less than 0), the constructor of
  \<open>Order\<close> raises and the store is untouched, although an \<open>OrderItem\<close> takes any
  price, negative ones too.
\<close>

theorem negative_total_rejected:
  assumes "parse_OrderInput body = Some order"
    and "compute_total P (Finite 0) (items order) = Inr tot"
    and "float_lt tot 0"
  shows "create_order P cd body st = (Inl ValidationError, st) \<and>
    validate_fields (OrderItem P) [(''supply_id'', JStr s), (''title'', JStr t), (''price'', JFloat r)]
      = Some [(''supply_id'', JStr s), (''title'', JStr t), (''price'', JFloat r), (''quantity'', JInt 1)]"
  using assms order_negative_total [OF assms(3)]
  by (simp add: create_order_def order_document_def OrderItem_def)

theorem negative_total_rejected_witness:
  "create_order strict_prims create_document (JObj
     [(''buyer_name'', JStr ''Ann''), (''buyer_email'', JStr ''ann@example.org''),
      (''shipping_address'', JStr ''1 Main St''),
      (''items'', JArr
         [JObj [(''supply_id'', JStr ''s1''), (''title'', JStr ''Brush''),
                (''price'', JInt (- 4)), (''quantity'', JInt 2)]])]) empty_store
   = (Inl ValidationError, empty_store) \<and>
   validate_fields (OrderItem strict_prims)
     [(''supply_id'', JStr ''s1''), (''title'', JStr ''Brush''), (''price'', JFloat (Finite (- 4)))]
     \<noteq> None"
proof -
  let ?it = "[(''supply_id'', JStr ''s1''), (''title'', JStr ''Brush''),
                (''price'', JInt (- 4)), (''quantity'', JInt 2)]"
  let ?d = "[(''buyer_name'', JStr ''Ann''), (''buyer_email'', JStr ''ann@example.org''),
      (''shipping_address'', JStr ''1 Main St''), (''items'', JArr [JObj ?it])]"
  let ?order = "\<lparr>buyer_name = ''Ann'', buyer_email = ''ann@example.org'',
      shipping_address = ''1 Main St'', items = [?it]\<rparr>"
  have h1: "parse_OrderInput (JObj ?d) = Some ?order"
    by (simp add: req_str_def req_dicts_def)
  have h2: "compute_total strict_prims (Finite 0) (items ?order) = Inr (Finite (- 8))"
    by (simp add: dict_get_def float_of_int_numeral round_double_numeral)
  have h3: "float_lt (Finite (- 8)) 0"
    by simp
  from negative_total_rejected
    [OF h1 h2 h3, of create_document empty_store "''s1''" "''Brush''" "Finite (- 4)"]
  show ?thesis by simp
qed

text \<open>
  C3. An Artwork, Supply, Post or Comment body that lacks a required field, or an Artwork
  body whose \<open>availability_status\<close> is not one of the four literals, is refused with
  \<open>ValidationFailure\<close>; the store function is not called and the state is unchanged.
\<close>

theorem invalid_create_rejected:
  "((map_of d ''artist_id'' = None \<or> map_of d ''title'' = None \<or>
     (\<exists>x. map_of d ''availability_status'' = Some x \<and>
          x \<notin> JStr ` set [''available'', ''reserved'', ''sold'', ''commission_only''])) \<longrightarrow>
    create_artwork P cd (JObj d) st = (Inl ValidationFailure, st)) \<and>
   ((map_of d ''title'' = None \<or> map_of d ''price'' = None \<or> map_of d ''category'' = None) \<longrightarrow>
    create_supply P cd (JObj d) st = (Inl ValidationFailure, st)) \<and>
   ((map_of d ''author_id'' = None \<or> map_of d ''text'' = None) \<longrightarrow>
    create_post P cd (JObj d) st = (Inl ValidationFailure, st)) \<and>
   ((map_of d ''post_id'' = None \<or> map_of d ''author_id'' = None \<or> map_of d ''text'' = None) \<longrightarrow>
    create_comment P cd (JObj d) st = (Inl ValidationFailure, st))"
proof (intro conjI impI)
  assume "map_of d ''artist_id'' = None \<or> map_of d ''title'' = None \<or>
     (\<exists>x. map_of d ''availability_status'' = Some x \<and>
          x \<notin> JStr ` set [''available'', ''reserved'', ''sold'', ''commission_only''])"
  then show "create_artwork P cd (JObj d) st = (Inl ValidationFailure, st)"
    using artwork_rejected [of d P] by (simp add: create_artwork_def)
next
  assume "map_of d ''title'' = None \<or> map_of d ''price'' = None \<or> map_of d ''category'' = None"
  then show "create_supply P cd (JObj d) st = (Inl ValidationFailure, st)"
    using supply_rejected [of d P] by (simp add: create_supply_def)
next
  assume "map_of d ''author_id'' = None \<or> map_of d ''text'' = None"
  then show "create_post P cd (JObj d) st = (Inl ValidationFailure, st)"
    using post_rejected [of d P] by (simp add: create_post_def)
next
  assume "map_of d ''post_id'' = None \<or> map_of d ''author_id'' = None \<or> map_of d ''text'' = None"
  then show "create_comment P cd (JObj d) st = (Inl ValidationFailure, st)"
    using comment_rejected [of d P] by (simp add: create_comment_def)
qed

theorem invalid_create_rejected_witness:
  "create_artwork strict_prims create_document
     (JObj [(''artist_id'', JStr ''u1''), (''title'', JStr ''Dawn''),
            (''availability_status'', JStr ''lost'')]) empty_store
   = (Inl ValidationFailure, empty_store) \<and>
   create_supply strict_prims create_document
     (JObj [(''title'', JStr ''Brush''), (''category'', JStr ''Brushes'')]) empty_store
   = (Inl ValidationFailure, empty_store) \<and>
   create_post strict_prims create_document
     (JObj [(''author_id'', JStr ''u1'')]) empty_store
   = (Inl ValidationFailure, empty_store) \<and>
   create_comment strict_prims create_document
     (JObj [(''post_id'', JStr ''p1''), (''text'', JStr ''Nice'')]) empty_store
   = (Inl ValidationFailure, empty_store)"
proof -
  have h1: "map_of [(''artist_id'', JStr ''u1''), (''title'', JStr ''Dawn''),
            (''availability_status'', JStr ''lost'')] ''availability_status'' = Some (JStr ''lost'') \<and>
     JStr ''lost'' \<notin> JStr ` set [''available'', ''reserved'', ''sold'', ''commission_only'']"
    by simp
  have h2: "map_of [(''title'', JStr ''Brush''), (''category'', JStr ''Brushes'')] ''price'' = None"
    by simp
  have h3: "map_of [(''author_id'', JStr ''u1'')] ''text'' = None"
    by simp
  have h4: "map_of [(''post_id'', JStr ''p1''), (''text'', JStr ''Nice'')] ''author_id'' = None"
    by simp
  from h1 invalid_create_rejected [of "[(''artist_id'', JStr ''u1''), (''title'', JStr ''Dawn''),
            (''availability_status'', JStr ''lost'')]" strict_prims create_document empty_store]
  have a: "create_artwork strict_prims create_document
     (JObj [(''artist_id'', JStr ''u1''), (''title'', JStr ''Dawn''),
            (''availability_status'', JStr ''lost'')]) empty_store
   = (Inl ValidationFailure, empty_store)"
    by blast
  from h2 invalid_create_rejected [of "[(''title'', JStr ''Brush''), (''category'', JStr ''Brushes'')]"
      strict_prims create_document empty_store]
  have b: "create_supply strict_prims create_document
     (JObj [(''title'', JStr ''Brush''), (''category'', JStr ''Brushes'')]) empty_store
   = (Inl ValidationFailure, empty_store)"
    by blast
  from h3 invalid_create_rejected [of "[(''author_id'', JStr ''u1'')]"
      strict_prims create_document empty_store]
  have c: "create_post strict_prims create_document
     (JObj [(''author_id'', JStr ''u1'')]) empty_store
   = (Inl ValidationFailure, empty_store)"
    by blast
  from h4 invalid_create_rejected [of "[(''post_id'', JStr ''p1''), (''text'', JStr ''Nice'')]"
      strict_prims create_document empty_store]
  have d: "create_comment strict_prims create_document
     (JObj [(''post_id'', JStr ''p1''), (''text'', JStr ''Nice'')]) empty_store
   = (Inl ValidationFailure, empty_store)"
    by blast
  from a b c d show ?thesis by blast
qed

text \<open>
  C7. A Supply body whose price converts to a float less than 0, or whose stock converts
  to an integer less than 0, fails on that field and is refused with
  \<open>ValidationFailure\<close>, the store untouched. A price that converts to a float of at
  least 0 passes the price field; a stock that is absent (it becomes 0) or converts to
  an integer of at least 0 passes the stock field. A float is converted to itself by the
  price field and an int to itself by the stock field.
\<close>

theorem supply_price_stock_nonnegative:
  "fst (Supply P ! 2) = ''price'' \<and> fst (Supply P ! 5) = ''stock'' \<and>
   v_float P (JFloat r') = Some (JFloat r') \<and> v_int P (JInt n') = Some (JInt n') \<and>
   (map_of d ''price'' = Some x \<and> v_float P x = Some (JFloat r) \<and> float_lt r 0 \<longrightarrow>
      validate_field (Supply P ! 2) d = None \<and>
      create_supply P cd (JObj d) st = (Inl ValidationFailure, st)) \<and>
   (map_of d ''stock'' = Some y \<and> v_int P y = Some (JInt n) \<and> n < 0 \<longrightarrow>
      validate_field (Supply P ! 5) d = None \<and>
      create_supply P cd (JObj d) st = (Inl ValidationFailure, st)) \<and>
   (map_of d ''price'' = Some x \<and> v_float P x = Some (JFloat r) \<and> float_ge r 0 \<longrightarrow>
      validate_field (Supply P ! 2) d = Some (JFloat r)) \<and>
   (map_of d ''stock'' = None \<longrightarrow> validate_field (Supply P ! 5) d = Some (JInt 0)) \<and>
   (map_of d ''stock'' = Some y \<and> v_int P y = Some (JInt n) \<and> 0 \<le> n \<longrightarrow>
      validate_field (Supply P ! 5) d = Some (JInt n))"
proof -
  have f2: "Supply P ! 2 = (''price'', v_ge 0 (v_float P), Required)"
    and f5: "Supply P ! 5 = (''stock'', v_ge 0 (v_int P), Default (JInt 0))"
    by (simp_all add: Supply_def)
  have a: "map_of d ''price'' = Some x \<and> v_float P x = Some (JFloat r) \<and> float_lt r 0 \<longrightarrow>
      validate_field (Supply P ! 2) d = None \<and>
      create_supply P cd (JObj d) st = (Inl ValidationFailure, st)"
    using supply_negative [of d x P r] by (simp add: f2 v_ge_def create_supply_def)
  have b: "map_of d ''stock'' = Some y \<and> v_int P y = Some (JInt n) \<and> n < 0 \<longrightarrow>
      validate_field (Supply P ! 5) d = None \<and>
      create_supply P cd (JObj d) st = (Inl ValidationFailure, st)"
    using supply_negative [of d _ P _ y n] by (simp add: f5 v_ge_def create_supply_def)
  have c: "map_of d ''price'' = Some x \<and> v_float P x = Some (JFloat r) \<and> float_ge r 0 \<longrightarrow>
      validate_field (Supply P ! 2) d = Some (JFloat r)"
    using float_ge_not_lt [of r 0] by (simp add: f2 v_ge_def)
  have e: "map_of d ''stock'' = None \<longrightarrow> validate_field (Supply P ! 5) d = Some (JInt 0)"
    by (simp add: f5)
  have f: "map_of d ''stock'' = Some y \<and> v_int P y = Some (JInt n) \<and> 0 \<le> n \<longrightarrow>
      validate_field (Supply P ! 5) d = Some (JInt n)"
    by (simp add: f5 v_ge_def)
  from a b c e f show ?thesis by (simp add: f2 f5)
qed

theorem supply_price_stock_nonnegative_witness:
  "create_supply strict_prims create_document
     (JObj [(''title'', JStr ''Brush''), (''price'', JFloat (Finite (- 1))),
            (''category'', JStr ''Brushes'')])
     empty_store = (Inl ValidationFailure, empty_store) \<and>
   create_supply strict_prims create_document
     (JObj [(''title'', JStr ''Brush''), (''price'', JInt 4), (''category'', JStr ''Brushes''),
            (''stock'', JInt (- 2))])
     empty_store = (Inl ValidationFailure, empty_store) \<and>
   validate_field (Supply strict_prims ! 2)
     [(''title'', JStr ''Brush''), (''price'', JInt 4), (''category'', JStr ''Brushes'')]
     = Some (JFloat (Finite 4)) \<and>
   validate_field (Supply strict_prims ! 5)
     [(''title'', JStr ''Brush''), (''price'', JInt 4), (''category'', JStr ''Brushes'')]
     = Some (JInt 0) \<and>
   validate_field (Supply strict_prims ! 5)
     [(''title'', JStr ''Brush''), (''price'', JInt 4), (''category'', JStr ''Brushes''),
      (''stock'', JInt 7)]
     = Some (JInt 7)"
proof -
  let ?d1 = "[(''title'', JStr ''Brush''), (''price'', JFloat (Finite (- 1))),
            (''category'', JStr ''Brushes'')]"
  let ?d2 = "[(''title'', JStr ''Brush''), (''price'', JInt 4), (''category'', JStr ''Brushes''),
            (''stock'', JInt (- 2))]"
  let ?d3 = "[(''title'', JStr ''Brush''), (''price'', JInt 4), (''category'', JStr ''Brushes'')]"
  let ?d4 = "[(''title'', JStr ''Brush''), (''price'', JInt 4), (''category'', JStr ''Brushes''),
      (''stock'', JInt 7)]"
  have h1: "map_of ?d1 ''price'' = Some (JFloat (Finite (- 1))) \<and>
      v_float strict_prims (JFloat (Finite (- 1))) = Some (JFloat (Finite (- 1))) \<and>
      float_lt (Finite (- 1)) 0"
    by simp
  have h2: "map_of ?d2 ''stock'' = Some (JInt (- 2)) \<and>
      v_int strict_prims (JInt (- 2)) = Some (JInt (- 2)) \<and> (- 2 :: int) < 0"
    by simp
  have h3: "map_of ?d3 ''price'' = Some (JInt 4) \<and>
      v_float strict_prims (JInt 4) = Some (JFloat (Finite 4)) \<and> float_ge (Finite 4) 0"
    by (simp add: float_of_int_numeral)
  have h4: "map_of ?d3 ''stock'' = None"
    by simp
  have h5: "map_of ?d4 ''stock'' = Some (JInt 7) \<and>
      v_int strict_prims (JInt 7) = Some (JInt 7) \<and> (0 :: int) \<le> 7"
    by simp
  from h1 supply_price_stock_nonnegative
    [of strict_prims NaN 0 ?d1 "JFloat (Finite (- 1))" "Finite (- 1)" create_document empty_store
       JNull 0]
  have a: "create_supply strict_prims create_document (JObj ?d1) empty_store
      = (Inl ValidationFailure, empty_store)"
    by blast
  from h2 supply_price_stock_nonnegative
    [of strict_prims NaN 0 ?d2 JNull NaN create_document empty_store "JInt (- 2)" "- 2"]
  have b: "create_supply strict_prims create_document (JObj ?d2) empty_store
      = (Inl ValidationFailure, empty_store)"
    by blast
  note t3 = supply_price_stock_nonnegative
    [of strict_prims NaN 0 ?d3 "JInt 4" "Finite 4" create_document empty_store JNull 0]
  from h3 t3 have c: "validate_field (Supply strict_prims ! 2) ?d3 = Some (JFloat (Finite 4))"
    by blast
  from h4 t3 have d: "validate_field (Supply strict_prims ! 5) ?d3 = Some (JInt 0)"
    by blast
  from h5 supply_price_stock_nonnegative
    [of strict_prims NaN 0 ?d4 JNull NaN create_document empty_store "JInt 7" 7]
  have e: "validate_field (Supply strict_prims ! 5) ?d4 = Some (JInt 7)"
    by blast
  from a b c d e show ?thesis by blast
qed

text \<open>
  C9. An empty string for \<open>tag\<close> (Artworks, Posts) or \<open>category\<close> (Supplies) is
  handled as an absent parameter: the store is asked with the empty filter, and the
  store as specified then returns the first 50 (100 for Supplies) of all records.
\<close>

theorem empty_string_is_no_filter:
  "list_artworks gd (Some '''') st = list_artworks gd None st \<and>
   list_artworks gd (Some '''') st = gd ''artwork'' (Some []) (Some 50) st \<and>
   list_posts gd (Some '''') st = list_posts gd None st \<and>
   list_posts gd (Some '''') st = gd ''post'' (Some []) (Some 50) st \<and>
   list_supplies gd (Some '''') st = list_supplies gd None st \<and>
   list_supplies gd (Some '''') st = gd ''supply'' (Some []) (Some 100) st \<and>
   list_artworks get_documents (Some '''') s
     = (if available s then Inr (take 50 (colls s ''artwork'')) else Inl StorageUnavailable) \<and>
   list_posts get_documents (Some '''') s
     = (if available s then Inr (take 50 (colls s ''post'')) else Inl StorageUnavailable) \<and>
   list_supplies get_documents (Some '''') s
     = (if available s then Inr (take 100 (colls s ''supply'')) else Inl StorageUnavailable)"
  by (simp add: list_artworks_def list_posts_def list_supplies_def tag_filter_def
      category_filter_def truthy_def get_documents_def matches_def)

text \<open>
  C6. Listing comments without \<open>post_id\<close> ends with \<open>MissingRequiredParameter\<close>
  whatever the store function and the state are (the store is not reached). With
  \<open>post_id\<close> given, every record returned is a stored comment whose \<open>post_id\<close> is the
  given one, and at most 100 are returned: the first 100 such comments.
\<close>

theorem comments_need_post_id:
  "list_comments gd None st = Inl MissingRequiredParameter \<and>
   (\<forall>docs. list_comments get_documents (Some p) s = Inr docs \<longrightarrow>
      length docs \<le> 100 \<and>
      (\<forall>doc\<in>set docs. doc \<in> set (colls s ''comment'') \<and> map_of doc ''post_id'' = Some (JStr p))) \<and>
   list_comments get_documents (Some p) s
     = (if available s
        then Inr (take 100 (filter (\<lambda>doc. map_of doc ''post_id'' = Some (JStr p)) (colls s ''comment'')))
        else Inl StorageUnavailable)"
proof -
  have a: "list_comments gd None st = Inl MissingRequiredParameter"
    by (simp add: list_comments_def)
  have c: "list_comments get_documents (Some p) s
     = (if available s
        then Inr (take 100 (filter (\<lambda>doc. map_of doc ''post_id'' = Some (JStr p)) (colls s ''comment'')))
        else Inl StorageUnavailable)"
    by (simp add: list_comments_def get_documents_def matches_post_id_fun)
  have b: "\<forall>docs. list_comments get_documents (Some p) s = Inr docs \<longrightarrow>
      length docs \<le> 100 \<and>
      (\<forall>doc\<in>set docs. doc \<in> set (colls s ''comment'') \<and> map_of doc ''post_id'' = Some (JStr p))"
  proof (intro allI impI)
    fix docs
    assume "list_comments get_documents (Some p) s = Inr docs"
    with c have d: "docs = take 100 (filter (\<lambda>doc. map_of doc ''post_id'' = Some (JStr p)) (colls s ''comment''))"
      by (simp split: if_splits)
    have "length docs \<le> 100"
      by (simp add: d)
    moreover have "\<forall>doc\<in>set docs. doc \<in> set (colls s ''comment'') \<and> map_of doc ''post_id'' = Some (JStr p)"
    proof
      fix doc
      assume "doc \<in> set docs"
      then have "doc \<in> set (filter (\<lambda>doc. map_of doc ''post_id'' = Some (JStr p)) (colls s ''comment''))"
        unfolding d by (rule in_set_takeD)
      then show "doc \<in> set (colls s ''comment'') \<and> map_of doc ''post_id'' = Some (JStr p)"
        by simp
    qed
    ultimately show "length docs \<le> 100 \<and>
      (\<forall>doc\<in>set docs. doc \<in> set (colls s ''comment'') \<and> map_of doc ''post_id'' = Some (JStr p))"
      by blast
  qed
  from a b c show ?thesis by blast
qed

theorem comments_need_post_id_witness:
  "list_comments get_documents None
     (store_with ''comment''
        [[(''post_id'', JStr ''p1''), (''author_id'', JStr ''u1''), (''text'', JStr ''Nice'')],
         [(''post_id'', JStr ''p2''), (''author_id'', JStr ''u2''), (''text'', JStr ''Hm'')]])
   = Inl MissingRequiredParameter \<and>
   list_comments get_documents (Some ''p1'')
     (store_with ''comment''
        [[(''post_id'', JStr ''p1''), (''author_id'', JStr ''u1''), (''text'', JStr ''Nice'')],
         [(''post_id'', JStr ''p2''), (''author_id'', JStr ''u2''), (''text'', JStr ''Hm'')]])
   = Inr [[(''post_id'', JStr ''p1''), (''author_id'', JStr ''u1''), (''text'', JStr ''Nice'')]] \<and>
   length [[(''post_id'', JStr ''p1''), (''author_id'', JStr ''u1''), (''text'', JStr ''Nice'')]] \<le> (100::nat)"
proof -
  let ?c1 = "[(''post_id'', JStr ''p1''), (''author_id'', JStr ''u1''), (''text'', JStr ''Nice'')]"
  let ?st = "store_with ''comment''
        [?c1, [(''post_id'', JStr ''p2''), (''author_id'', JStr ''u2''), (''text'', JStr ''Hm'')]]"
  note t = comments_need_post_id [of get_documents ?st "''p1''" ?st]
  have h: "list_comments get_documents (Some ''p1'') ?st = Inr [?c1]"
    using t by (simp add: store_with_def)
  from t h have "length [?c1] \<le> (100::nat)"
    by blast
  with t h show ?thesis by simp
qed

text \<open>
  C4. The list handlers pass the limits 50 (Artwork), 100 (Supply), 50 (Order), 50 (Post)
  and 100 (Comment) to the store, and \<open>list_users\<close> passes none. With the store as
  specified, a list never holds more records than its limit (exactly 50 Artworks when
  50 or more are stored) and the User list holds every stored user.
\<close>

theorem list_limits:
  "list_artworks gd tag st = gd ''artwork'' (Some (tag_filter tag)) (Some 50) st \<and>
   list_supplies gd category st = gd ''supply'' (Some (category_filter category)) (Some 100) st \<and>
   list_orders gd st = gd ''order'' (Some []) (Some 50) st \<and>
   list_posts gd tag st = gd ''post'' (Some (tag_filter tag)) (Some 50) st \<and>
   list_comments gd (Some p) st = gd ''comment'' (Some [(''post_id'', Eq (JStr p))]) (Some 100) st \<and>
   list_users gd st = gd ''user'' None None st \<and>
   (\<forall>docs. list_artworks get_documents tag s = Inr docs \<longrightarrow> length docs \<le> 50) \<and>
   (\<forall>docs. list_supplies get_documents category s = Inr docs \<longrightarrow> length docs \<le> 100) \<and>
   (\<forall>docs. list_orders get_documents s = Inr docs \<longrightarrow> length docs \<le> 50) \<and>
   (\<forall>docs. list_posts get_documents tag s = Inr docs \<longrightarrow> length docs \<le> 50) \<and>
   (\<forall>docs. list_comments get_documents (Some p) s = Inr docs \<longrightarrow> length docs \<le> 100) \<and>
   (available s \<and> 50 \<le> length (colls s ''artwork'') \<longrightarrow>
      (\<exists>docs. list_artworks get_documents None s = Inr docs \<and> length docs = 50)) \<and>
   list_users get_documents s
     = (if available s then Inr (colls s ''user'') else Inl StorageUnavailable)"
proof -
  have a: "list_artworks gd tag st = gd ''artwork'' (Some (tag_filter tag)) (Some 50) st \<and>
   list_supplies gd category st = gd ''supply'' (Some (category_filter category)) (Some 100) st \<and>
   list_orders gd st = gd ''order'' (Some []) (Some 50) st \<and>
   list_posts gd tag st = gd ''post'' (Some (tag_filter tag)) (Some 50) st \<and>
   list_comments gd (Some p) st = gd ''comment'' (Some [(''post_id'', Eq (JStr p))]) (Some 100) st \<and>
   list_users gd st = gd ''user'' None None st"
    by (simp add: list_artworks_def list_supplies_def list_orders_def list_posts_def
        list_comments_def list_users_def)
  have b: "(\<forall>docs. list_artworks get_documents tag s = Inr docs \<longrightarrow> length docs \<le> 50) \<and>
   (\<forall>docs. list_supplies get_documents category s = Inr docs \<longrightarrow> length docs \<le> 100) \<and>
   (\<forall>docs. list_orders get_documents s = Inr docs \<longrightarrow> length docs \<le> 50) \<and>
   (\<forall>docs. list_posts get_documents tag s = Inr docs \<longrightarrow> length docs \<le> 50) \<and>
   (\<forall>docs. list_comments get_documents (Some p) s = Inr docs \<longrightarrow> length docs \<le> 100)"
    using get_documents_length
    by (simp add: list_artworks_def list_supplies_def list_orders_def list_posts_def
        list_comments_def)
  have c: "available s \<and> 50 \<le> length (colls s ''artwork'') \<longrightarrow>
      (\<exists>docs. list_artworks get_documents None s = Inr docs \<and> length docs = 50)"
    by (simp add: list_artworks_def get_documents_def tag_filter_def truthy_def matches_def)
  have d: "list_users get_documents s
     = (if available s then Inr (colls s ''user'') else Inl StorageUnavailable)"
    by (simp add: list_users_def get_documents_def matches_def)
  from a b c d show ?thesis by simp
qed

theorem list_limits_witness:
  "list_artworks get_documents None (created 60) = Inr (numbered 50) \<and>
   length (numbered 50) \<le> 50 \<and>
   length (colls (created 60) ''artwork'') = 60 \<and>
   list_users get_documents (store_with ''user'' (replicate 60 [(''name'', JStr ''Ann'')]))
     = Inr (replicate 60 [(''name'', JStr ''Ann'')])"
proof -
  let ?s = "created 60"
  let ?u = "store_with ''user'' (replicate 60 [(''name'', JStr ''Ann'')])"
  have h: "list_artworks get_documents None ?s = Inr (numbered 50)"
    by (simp add: list_artworks_def get_documents_def tag_filter_def truthy_def matches_def
        created_eq store_with_def take_numbered)
  from h list_limits [of get_documents None ?s None "''p''" ?s]
  have "length (numbered 50) \<le> 50"
    by blast
  moreover have "list_users get_documents ?u = Inr (replicate 60 [(''name'', JStr ''Ann'')])"
    using list_limits [of get_documents None ?s None "''p''" ?u]
    by (simp add: store_with_def)
  ultimately show ?thesis
    using h by (simp add: created_eq store_with_def length_numbered)
qed

text \<open>
  C5. As stated, that a listing with a tag returns exactly the stored records carrying
  the tag, the claim fails in two places: with 51 Artworks tagged \<open>abstract\<close> the
  listing returns 50 of them, and with the empty string as tag it returns the stored
  records although none carries the empty tag.
\<close>

theorem tag_filter_exact_counterexample:
  "list_artworks get_documents (Some ''abstract'') (created 51)
     \<noteq> Inr (filter (has_tag ''abstract'') (colls (created 51) ''artwork'')) \<and>
   list_artworks get_documents (Some ''abstract'') (created 51) = Inr (numbered 50) \<and>
   filter (has_tag ''abstract'') (colls (created 51) ''artwork'') = numbered 51 \<and>
   list_artworks get_documents (Some []) (created 2)
     \<noteq> Inr (filter (has_tag []) (colls (created 2) ''artwork'')) \<and>
   list_artworks get_documents (Some []) (created 2) = Inr (numbered 2) \<and>
   filter (has_tag []) (colls (created 2) ''artwork'') = []"
proof -
  have c: "colls (created 51) ''artwork'' = numbered 51" "available (created 51)"
    and c2: "colls (created 2) ''artwork'' = numbered 2" "available (created 2)"
    by (simp_all add: created_eq store_with_def)
  have a: "list_artworks get_documents (Some ''abstract'') (created 51) = Inr (numbered 50)"
    by (simp add: list_artworks_def get_documents_def matches_tag_fun c numbered_tagged
        take_numbered)
  have b: "filter (has_tag ''abstract'') (colls (created 51) ''artwork'') = numbered 51"
    by (simp add: c numbered_tagged)
  have n: "numbered 50 \<noteq> numbered 51"
    using length_numbered [of 50] length_numbered [of 51] by auto
  have d: "list_artworks get_documents (Some []) (created 2) = Inr (numbered 2)"
    by (simp add: list_artworks_def get_documents_def tag_filter_def truthy_def matches_def c2
        length_numbered)
  have e: "filter (has_tag []) (colls (created 2) ''artwork'') = []"
    by (simp add: c2 numbered_untagged)
  have m: "numbered 2 \<noteq> []"
    using length_numbered [of 2] by auto
  from a b n d e m show ?thesis by simp
qed

text \<open>
  C5, amended. For a tag that is not the empty string, listing Artworks or Posts returns
  the first 50, in store order, of the stored records whose \<open>tags\<close> list contains the
  tag: only such records, and exactly those records when at most 50 of them are stored.
\<close>

theorem tag_filter_lists:
  assumes "tag \<noteq> []"
  shows "list_artworks get_documents (Some tag) s
      = (if available s then Inr (take 50 (filter (has_tag tag) (colls s ''artwork'')))
         else Inl StorageUnavailable) \<and>
    list_posts get_documents (Some tag) s
      = (if available s then Inr (take 50 (filter (has_tag tag) (colls s ''post'')))
         else Inl StorageUnavailable) \<and>
    (\<forall>docs. list_artworks get_documents (Some tag) s = Inr docs \<longrightarrow>
       (\<forall>doc\<in>set docs. doc \<in> set (colls s ''artwork'') \<and> has_tag tag doc) \<and>
       (length (filter (has_tag tag) (colls s ''artwork'')) \<le> 50 \<longrightarrow>
          docs = filter (has_tag tag) (colls s ''artwork''))) \<and>
    (\<forall>docs. list_posts get_documents (Some tag) s = Inr docs \<longrightarrow>
       (\<forall>doc\<in>set docs. doc \<in> set (colls s ''post'') \<and> has_tag tag doc) \<and>
       (length (filter (has_tag tag) (colls s ''post'')) \<le> 50 \<longrightarrow>
          docs = filter (has_tag tag) (colls s ''post'')))"
proof -
  have sub: "\<And>docs xs. docs = take 50 (filter (has_tag tag) xs) \<Longrightarrow>
      (\<forall>doc\<in>set docs. doc \<in> set xs \<and> has_tag tag doc) \<and>
      (length (filter (has_tag tag) xs) \<le> 50 \<longrightarrow> docs = filter (has_tag tag) xs)"
  proof -
    fix docs :: "dict list" and xs
    assume d: "docs = take 50 (filter (has_tag tag) xs)"
    have "\<forall>doc\<in>set docs. doc \<in> set xs \<and> has_tag tag doc"
    proof
      fix doc
      assume "doc \<in> set docs"
      then have "doc \<in> set (filter (has_tag tag) xs)"
        unfolding d by (rule in_set_takeD)
      then show "doc \<in> set xs \<and> has_tag tag doc"
        by simp
    qed
    moreover have "length (filter (has_tag tag) xs) \<le> 50 \<longrightarrow> docs = filter (has_tag tag) xs"
      by (simp add: d)
    ultimately show "(\<forall>doc\<in>set docs. doc \<in> set xs \<and> has_tag tag doc) \<and>
      (length (filter (has_tag tag) xs) \<le> 50 \<longrightarrow> docs = filter (has_tag tag) xs)"
      by blast
  qed
  have a: "list_artworks get_documents (Some tag) s
      = (if available s then Inr (take 50 (filter (has_tag tag) (colls s ''artwork'')))
         else Inl StorageUnavailable)"
    using assms by (simp add: list_artworks_def get_documents_def matches_tag_fun)
  have p: "list_posts get_documents (Some tag) s
      = (if available s then Inr (take 50 (filter (has_tag tag) (colls s ''post'')))
         else Inl StorageUnavailable)"
    using assms by (simp add: list_posts_def get_documents_def matches_tag_fun)
  have a': "\<forall>docs. list_artworks get_documents (Some tag) s = Inr docs \<longrightarrow>
       (\<forall>doc\<in>set docs. doc \<in> set (colls s ''artwork'') \<and> has_tag tag doc) \<and>
       (length (filter (has_tag tag) (colls s ''artwork'')) \<le> 50 \<longrightarrow>
          docs = filter (has_tag tag) (colls s ''artwork''))"
  proof (intro allI impI)
    fix docs
    assume "list_artworks get_documents (Some tag) s = Inr docs"
    with a have "docs = take 50 (filter (has_tag tag) (colls s ''artwork''))"
      by (simp split: if_splits)
    then show "(\<forall>doc\<in>set docs. doc \<in> set (colls s ''artwork'') \<and> has_tag tag doc) \<and>
       (length (filter (has_tag tag) (colls s ''artwork'')) \<le> 50 \<longrightarrow>
          docs = filter (has_tag tag) (colls s ''artwork''))"
      by (rule sub)
  qed
  have p': "\<forall>docs. list_posts get_documents (Some tag) s = Inr docs \<longrightarrow>
       (\<forall>doc\<in>set docs. doc \<in> set (colls s ''post'') \<and> has_tag tag doc) \<and>
       (length (filter (has_tag tag) (colls s ''post'')) \<le> 50 \<longrightarrow>
          docs = filter (has_tag tag) (colls s ''post''))"
  proof (intro allI impI)
    fix docs
    assume "list_posts get_documents (Some tag) s = Inr docs"
    with p have "docs = take 50 (filter (has_tag tag) (colls s ''post''))"
      by (simp split: if_splits)
    then show "(\<forall>doc\<in>set docs. doc \<in> set (colls s ''post'') \<and> has_tag tag doc) \<and>
       (length (filter (has_tag tag) (colls s ''post'')) \<le> 50 \<longrightarrow>
          docs = filter (has_tag tag) (colls s ''post''))"
      by (rule sub)
  qed
  from a p a' p' show ?thesis by blast
qed

theorem tag_filter_lists_witness:
  "''abstract'' \<noteq> [] \<and>
   list_artworks get_documents (Some ''abstract'')
     (snd (create_artwork strict_prims create_document (artwork_body ''portrait'')
        (snd (create_artwork strict_prims create_document (artwork_body ''abstract'')
           empty_store))))
   = Inr [(''_id'', JInt 0) # artwork_doc ''abstract''] \<and>
   colls (snd (create_artwork strict_prims create_document (artwork_body ''portrait'')
        (snd (create_artwork strict_prims create_document (artwork_body ''abstract'')
           empty_store)))) ''artwork''
   = [(''_id'', JInt 0) # artwork_doc ''abstract'', (''_id'', JInt 1) # artwork_doc ''portrait'']"
proof -
  let ?s1 = "snd (create_artwork strict_prims create_document (artwork_body ''abstract'')
           empty_store)"
  let ?s = "snd (create_artwork strict_prims create_document (artwork_body ''portrait'') ?s1)"
  have h: "''abstract'' \<noteq> []"
    by simp
  have s1: "?s1 = \<lparr>available = True,
         colls = (\<lambda>name. [])(''artwork'' := [(''_id'', JInt 0) # artwork_doc ''abstract'']),
         next_id = 1\<rparr>"
    by (simp add: create_artwork_def validate_artwork_body create_document_def empty_store_def)
  have s: "?s = \<lparr>available = True,
         colls = (\<lambda>name. [])(''artwork'' := [(''_id'', JInt 0) # artwork_doc ''abstract'',
                                             (''_id'', JInt 1) # artwork_doc ''portrait'']),
         next_id = 2\<rparr>"
    unfolding s1
    by (simp add: create_artwork_def validate_artwork_body create_document_def)
  have c: "colls ?s ''artwork''
      = [(''_id'', JInt 0) # artwork_doc ''abstract'', (''_id'', JInt 1) # artwork_doc ''portrait'']"
    and av: "available ?s"
    unfolding s by simp_all
  have f: "filter (has_tag ''abstract'') (colls ?s ''artwork'')
      = [(''_id'', JInt 0) # artwork_doc ''abstract'']"
    unfolding c by (simp add: has_tag_def artwork_doc_def)
  from tag_filter_lists [OF h, of ?s]
  have "list_artworks get_documents (Some ''abstract'') ?s
      = (if available ?s then Inr (take 50 (filter (has_tag ''abstract'') (colls ?s ''artwork'')))
         else Inl StorageUnavailable)"
    by (rule conjunct1)
  also have "\<dots> = Inr [(''_id'', JInt 0) # artwork_doc ''abstract'']"
    unfolding f using av by simp
  finally have r: "list_artworks get_documents (Some ''abstract'') ?s
      = Inr [(''_id'', JInt 0) # artwork_doc ''abstract'']" .
  from h r c show ?thesis
    by (intro conjI)
qed

end
